theory Spec2Isabelle
  imports Main "HOL-Library.Sublist" "HOL-Library.List_Lexorder" "HOL-Library.Char_ord"
begin

section \<open>Strings of the host language\<close>

text \<open>
  A source string is modelled as a \<^typ>\<open>string\<close>: the list of its code units, each
  below 256 (ASCII and Latin-1).  The helpers below follow the string methods of the
  source on that range.
\<close>

definition sq :: char where
  "sq = CHR 0x27"

definition dq :: char where
  "dq = CHR 0x22"

definition isSpace :: "char \<Rightarrow> bool" where
  \<comment> \<open>white space and line terminators: what \<open>trim\<close> strips and \<open>\s\<close> matches\<close>
  "isSpace c = (c \<in> set [CHR 0x09, CHR 0x0A, CHR 0x0B, CHR 0x0C, CHR 0x0D, CHR 0x20, CHR 0xA0])"

definition isDigit :: "char \<Rightarrow> bool" where
  "isDigit c = (c \<in> set ''0123456789'')"

definition lowerChar :: "char \<Rightarrow> char" where
  "lowerChar c =
     (let n = (of_char c :: nat)
      in if (65 \<le> n \<and> n \<le> 90) \<or> (192 \<le> n \<and> n \<le> 222 \<and> n \<noteq> 215)
         then char_of (n + 32) else c)"

definition toLowerCase :: "string \<Rightarrow> string" where
  "toLowerCase s = map lowerChar s"

definition upperChars :: "char \<Rightarrow> string" where
  \<comment> \<open>sharp s becomes two letters; y-diaeresis and micro, whose capitals lie beyond
      code unit 255, are left as they are\<close>
  "upperChars c =
     (let n = (of_char c :: nat)
      in if (97 \<le> n \<and> n \<le> 122) \<or> (224 \<le> n \<and> n \<le> 254 \<and> n \<noteq> 247)
         then [char_of (n - 32)]
         else if n = 223 then ''SS'' else [c])"

definition toUpperCase :: "string \<Rightarrow> string" where
  "toUpperCase s = concat (map upperChars s)"

definition trim :: "string \<Rightarrow> string" where
  "trim s = rev (dropWhile isSpace (rev (dropWhile isSpace s)))"

definition startsWith :: "string \<Rightarrow> string \<Rightarrow> bool" where
  "startsWith s p = (take (length p) s = p)"

definition endsWith :: "string \<Rightarrow> string \<Rightarrow> bool" where
  "endsWith s p = (length p \<le> length s \<and> drop (length s - length p) s = p)"

fun includesStr :: "string \<Rightarrow> string \<Rightarrow> bool" where
  "includesStr [] sub = (sub = [])"
| "includesStr (c # cs) sub = (startsWith (c # cs) sub \<or> includesStr cs sub)"

fun splitOn :: "char \<Rightarrow> string \<Rightarrow> string list" where
  "splitOn d [] = [[]]"
| "splitOn d (c # cs) =
     (if c = d then [] # splitOn d cs
      else (case splitOn d cs of [] \<Rightarrow> [[c]] | p # ps \<Rightarrow> (c # p) # ps))"

definition replaceChar :: "char \<Rightarrow> string \<Rightarrow> string \<Rightarrow> string" where
  \<comment> \<open>\<open>s.replace(/c/g, r)\<close>\<close>
  "replaceChar c r s = concat (map (\<lambda>x. if x = c then r else [x]) s)"

section \<open>The regular expressions of the parser\<close>

text \<open>
  The parser builds three shapes of regular expression: \<open>\s*op\s*\<close> (case sensitive)
  for a one-word operator, \<open>\s+op\s+\<close> (flag \<open>i\<close>) for a multi-word operator or an
  inline connective, and \<open>\s+\<close>.  No operator begins with white space, so the greedy
  runs never need to give a character back.
\<close>

datatype regex = OpSingle string | OpMulti string | Spaces

definition eqIgnoreCase :: "string \<Rightarrow> string \<Rightarrow> bool" where
  "eqIgnoreCase a b = (toLowerCase a = toLowerCase b)"

fun matchHere :: "regex \<Rightarrow> string \<Rightarrow> nat option" where
  "matchHere (OpSingle lit) s =
     (let w1 = takeWhile isSpace s; r1 = dropWhile isSpace s
      in if startsWith r1 lit
         then Some (length w1 + length lit + length (takeWhile isSpace (drop (length lit) r1)))
         else None)"
| "matchHere (OpMulti lit) s =
     (let w1 = takeWhile isSpace s; r1 = dropWhile isSpace s;
          w2 = takeWhile isSpace (drop (length lit) r1)
      in if w1 \<noteq> [] \<and> length lit \<le> length r1 \<and> eqIgnoreCase (take (length lit) r1) lit \<and> w2 \<noteq> []
         then Some (length w1 + length lit + length w2)
         else None)"
| "matchHere Spaces s =
     (let w1 = takeWhile isSpace s in if w1 \<noteq> [] then Some (length w1) else None)"

fun regexTest :: "regex \<Rightarrow> string \<Rightarrow> bool" where
  "regexTest r [] = (matchHere r [] \<noteq> None)"
| "regexTest r (c # cs) = (matchHere r (c # cs) \<noteq> None \<or> regexTest r cs)"

text \<open>
  \<open>String.prototype.split\<close> with a regular expression: the expression is tried at each
  position from the end of the last separator on; a match that is empty at that very
  position is skipped; the text before a match is a piece, and the rest after the last
  match is the last piece.
\<close>

function splitLoop :: "regex \<Rightarrow> string \<Rightarrow> string \<Rightarrow> string list" where
  "splitLoop r cur [] = [cur]"
| "splitLoop r cur (c # cs) =
     (case matchHere r (c # cs) of
        None \<Rightarrow> splitLoop r (cur @ [c]) cs
      | Some n \<Rightarrow>
          if n = 0 then (if cur = [] then splitLoop r [c] cs else cur # splitLoop r [c] cs)
          else cur # splitLoop r [] (drop (n - 1) cs))"
  by pat_completeness auto
termination
  by (relation "measure (\<lambda>(r, cur, s). length s)") auto

definition regexSplit :: "regex \<Rightarrow> string \<Rightarrow> string list" where
  "regexSplit r s =
     (if s = [] then (if matchHere r [] \<noteq> None then [] else [[]])
      else splitLoop r [] s)"

section \<open>The query model (QueryParser.ts)\<close>

datatype QueryOperator =
  EQUALS | NOT_EQUALS | GREATER_THAN | GREATER_THAN_OR_EQUAL | LESS_THAN
  | LESS_THAN_OR_EQUAL | CONTAINS | NOT_CONTAINS | IN_OP | NOT_IN

datatype BooleanLogic = AND_LOGIC | OR_LOGIC | NOT_LOGIC

datatype SortDirection = ASC | DESC

text \<open>A filter value is a string or an array of strings.\<close>

datatype qvalue = Scalar string | Multi "string list"

record FilterCondition =
  field :: string
  operator :: QueryOperator
  fvalue :: qvalue
  logic :: "BooleanLogic option"

record SortCondition =
  sort_field :: string
  direction :: SortDirection

text \<open>
  The limit is what \<open>parseInt\<close> returned, an integer (the parser never stores NaN);
  it is absent until a \<open>limit\<close> line sets it.  Integers are exact here; the host
  rounds those beyond \<open>2^53\<close>.
\<close>

record ParsedQuery =
  filters :: "FilterCondition list"
  sorts :: "SortCondition list"
  limit :: "int option"

fun opToken :: "QueryOperator \<Rightarrow> string" where
  "opToken EQUALS = ''=''"
| "opToken NOT_EQUALS = ''!=''"
| "opToken GREATER_THAN = ''>''"
| "opToken GREATER_THAN_OR_EQUAL = ''>=''"
| "opToken LESS_THAN = ''<''"
| "opToken LESS_THAN_OR_EQUAL = ''<=''"
| "opToken CONTAINS = ''includes''"
| "opToken NOT_CONTAINS = ''not includes''"
| "opToken IN_OP = ''in''"
| "opToken NOT_IN = ''not in''"

definition operatorEntries :: "QueryOperator list" where
  \<comment> \<open>\<open>Object.entries(QueryOperator)\<close>: the members in declaration order\<close>
  "operatorEntries =
     [EQUALS, NOT_EQUALS, GREATER_THAN, GREATER_THAN_OR_EQUAL, LESS_THAN,
      LESS_THAN_OR_EQUAL, CONTAINS, NOT_CONTAINS, IN_OP, NOT_IN]"

definition isQuote :: "char \<Rightarrow> bool" where
  "isQuote c = (c = sq \<or> c = dq)"

definition stripQuotes :: "string \<Rightarrow> string" where
  \<comment> \<open>\<open>replace(/^['"]|['"]$/g, '')\<close>: one quote off the front, then one off the end of
      what is left\<close>
  "stripQuotes s =
     (let a = (case s of [] \<Rightarrow> [] | c # cs \<Rightarrow> if isQuote c then cs else c # cs)
      in if a \<noteq> [] \<and> isQuote (last a) then butlast a else a)"

definition parseValue :: "string \<Rightarrow> qvalue" where
  "parseValue valueStr =
     (let v = stripQuotes valueStr
      in if CHR '','' \<in> set v then Multi (map trim (splitOn CHR '','' v)) else Scalar v)"

definition opRegex :: "QueryOperator \<Rightarrow> regex" where
  "opRegex opEnum =
     (if CHR '' '' \<in> set (opToken opEnum) then OpMulti (opToken opEnum)
      else OpSingle (opToken opEnum))"

fun tryOperators :: "QueryOperator list \<Rightarrow> string \<Rightarrow> FilterCondition option" where
  "tryOperators [] filterStr = None"
| "tryOperators (opEnum # rest) filterStr =
     (if regexTest (opRegex opEnum) filterStr
      then (case regexSplit (opRegex opEnum) filterStr of
              [p0, p1] \<Rightarrow>
                Some \<lparr>field = trim p0, operator = opEnum, fvalue = parseValue (trim p1),
                      logic = None\<rparr>
            | _ \<Rightarrow> tryOperators rest filterStr)
      else tryOperators rest filterStr)"

definition parseFilter :: "string \<Rightarrow> FilterCondition option" where
  "parseFilter filterStr = tryOperators operatorEntries filterStr"

definition parseSort :: "string \<Rightarrow> SortCondition option" where
  "parseSort sortStr =
     (case regexSplit Spaces sortStr of
        [] \<Rightarrow> None
      | p0 # ps \<Rightarrow>
          Some \<lparr>sort_field = trim p0,
                direction = (case ps of
                               [] \<Rightarrow> ASC
                             | p1 # _ \<Rightarrow> if toLowerCase p1 = ''desc'' then DESC else ASC)\<rparr>)"

fun digitsValue :: "nat \<Rightarrow> string \<Rightarrow> nat" where
  "digitsValue acc [] = acc"
| "digitsValue acc (c # cs) = digitsValue (acc * 10 + (of_char c - 48)) cs"

definition parseInt :: "string \<Rightarrow> int option" where
  \<comment> \<open>\<open>parseInt(s, 10)\<close>: leading white space, a sign, the longest run of digits;
      \<open>None\<close> is NaN\<close>
  "parseInt s =
     (let t = dropWhile isSpace s;
          neg = (t \<noteq> [] \<and> hd t = CHR ''-'');
          u = (if t \<noteq> [] \<and> (hd t = CHR ''-'' \<or> hd t = CHR ''+'') then tl t else t);
          ds = takeWhile isDigit u
      in if ds = [] then None
         else Some (if neg then - int (digitsValue 0 ds) else int (digitsValue 0 ds)))"

definition stripWhere :: "string \<Rightarrow> string" where
  \<comment> \<open>\<open>replace(/^where\s+/i, '')\<close>\<close>
  "stripWhere s =
     (if eqIgnoreCase (take 5 s) ''where'' \<and> 5 < length s \<and> isSpace (s ! 5)
      then dropWhile isSpace (drop 5 s) else s)"

text \<open>
  The loop over the parts of a line split at an inline connective: part \<open>i\<close> takes the
  connective as its marker when \<open>i > 0\<close>, and the pending marker otherwise.
\<close>

fun addParts ::
  "BooleanLogic \<Rightarrow> BooleanLogic option \<Rightarrow> nat \<Rightarrow> string list \<Rightarrow> FilterCondition list
     \<Rightarrow> FilterCondition list" where
  "addParts conn currentLogic i [] acc = acc"
| "addParts conn currentLogic i (p # ps) acc =
     addParts conn currentLogic (Suc i) ps
       (case parseFilter (trim (stripWhere p)) of
          None \<Rightarrow> acc
        | Some f \<Rightarrow> acc @ [f\<lparr>logic := (if 0 < i then Some conn else currentLogic)\<rparr>])"

text \<open>One iteration of the loop over the lines: the query so far and the pending marker.\<close>

definition parseLine ::
  "ParsedQuery \<times> BooleanLogic option \<Rightarrow> string \<Rightarrow> ParsedQuery \<times> BooleanLogic option" where
  "parseLine st line =
     (let query = fst st; currentLogic = snd st; low = toLowerCase line
      in if low = ''tasks'' then st
         else if startsWith low ''where '' then
           (case parseFilter (trim (drop 6 line)) of
              None \<Rightarrow> st
            | Some f \<Rightarrow>
                (query\<lparr>filters := filters query @ [f\<lparr>logic := currentLogic\<rparr>]\<rparr>, None))
         else if low = ''and'' then (query, Some AND_LOGIC)
         else if low = ''or'' then (query, Some OR_LOGIC)
         else if low = ''not'' then (query, Some NOT_LOGIC)
         else if includesStr low '' and '' then
           (query\<lparr>filters :=
               addParts AND_LOGIC currentLogic 0 (regexSplit (OpMulti ''and'') line) (filters query)\<rparr>,
            None)
         else if includesStr low '' or '' then
           (query\<lparr>filters :=
               addParts OR_LOGIC currentLogic 0 (regexSplit (OpMulti ''or'') line) (filters query)\<rparr>,
            None)
         else if startsWith low ''sort by '' then
           (case parseSort (trim (drop 8 line)) of
              None \<Rightarrow> st
            | Some s \<Rightarrow> (query\<lparr>sorts := sorts query @ [s]\<rparr>, currentLogic))
         else if startsWith low ''limit '' then
           (case parseInt (trim (drop 6 line)) of
              None \<Rightarrow> st
            | Some n \<Rightarrow> (query\<lparr>limit := Some n\<rparr>, currentLogic))
         else st)"

definition queryLines :: "string \<Rightarrow> string list" where
  "queryLines queryString =
     filter (\<lambda>line. line \<noteq> [] \<and> \<not> startsWith line ''#'')
       (map trim (splitOn CHR 0x0A queryString))"

definition parse :: "string \<Rightarrow> ParsedQuery" where
  "parse queryString =
     fst (foldl parseLine (\<lparr>filters = [], sorts = [], limit = None\<rparr>, None)
            (queryLines queryString))"

section \<open>Dates of the query language\<close>

text \<open>
  \<open>parseQueryDate\<close> works on the local calendar date of the clock, here the argument
  \<open>today\<close> (year, month 1 to 12, day).  Calendar dates are counted in days from
  1970-01-01 in the proleptic Gregorian calendar, as the host's \<open>Date\<close> does; a date more
  than 100 000 000 days away from that origin is an invalid \<open>Date\<close>, whose fields print
  as NaN (the bound is taken on the local date).
\<close>

type_synonym civil = "int \<times> int \<times> int"

definition daysFromCivil :: "civil \<Rightarrow> int" where
  "daysFromCivil ymd =
     (case ymd of (y0, m, d) \<Rightarrow>
        let y = (if m \<le> 2 then y0 - 1 else y0);
            era = y div 400;
            yoe = y - era * 400;
            doy = (153 * (if 2 < m then m - 3 else m + 9) + 2) div 5 + d - 1;
            doe = yoe * 365 + yoe div 4 - yoe div 100 + doy
        in era * 146097 + doe - 719468)"

definition civilFromDays :: "int \<Rightarrow> civil" where
  "civilFromDays z0 =
     (let z = z0 + 719468;
          era = z div 146097;
          doe = z - era * 146097;
          yoe = (doe - doe div 1460 + doe div 36524 - doe div 146096) div 365;
          doy = doe - (365 * yoe + yoe div 4 - yoe div 100);
          mp = (5 * doy + 2) div 153;
          d = doy - (153 * mp + 2) div 5 + 1;
          m = (if mp < 10 then mp + 3 else mp - 9)
      in (yoe + era * 400 + (if m \<le> 2 then 1 else 0), m, d))"

definition makeDay :: "int \<Rightarrow> int \<Rightarrow> int \<Rightarrow> int" where
  \<comment> \<open>the day number of a year, a month counted from 0 that may overflow, and a day of
      the month that may overflow\<close>
  "makeDay year month0 date =
     daysFromCivil (year + month0 div 12, month0 mod 12 + 1, 1) + date - 1"

definition digitChar :: "nat \<Rightarrow> char" where
  "digitChar n = char_of (48 + n)"

function showNat :: "nat \<Rightarrow> string" where
  "showNat n = (if n < 10 then [digitChar n] else showNat (n div 10) @ [digitChar (n mod 10)])"
  by pat_completeness auto
termination
  by (relation "measure id") auto

definition showInt :: "int \<Rightarrow> string" where
  "showInt i = (if i < 0 then CHR ''-'' # showNat (nat (- i)) else showNat (nat i))"

definition pad2 :: "string \<Rightarrow> string" where
  \<comment> \<open>\<open>padStart(2, '0')\<close>\<close>
  "pad2 s = replicate (2 - length s) CHR ''0'' @ s"

definition formatDate :: "int \<Rightarrow> string" where
  "formatDate day =
     (if day < - 100000000 \<or> 100000000 < day then ''NaN-NaN-NaN''
      else (case civilFromDays day of (y, m, d) \<Rightarrow>
              showInt y @ ''-'' @ pad2 (showInt m) @ ''-'' @ pad2 (showInt d)))"

datatype dateBase = Today | Tomorrow | Yesterday

definition matchBase :: "string \<Rightarrow> (dateBase \<times> string) option" where
  "matchBase s =
     (if eqIgnoreCase (take 5 s) ''today'' then Some (Today, drop 5 s)
      else if eqIgnoreCase (take 8 s) ''tomorrow'' then Some (Tomorrow, drop 8 s)
      else if eqIgnoreCase (take 9 s) ''yesterday'' then Some (Yesterday, drop 9 s)
      else None)"

definition matchRelative :: "string \<Rightarrow> (dateBase \<times> char \<times> string \<times> char) option" where
  \<comment> \<open>\<open>/^(today|tomorrow|yesterday)\s*([+\-])\s*(\d+)([dwmy])$/i\<close>\<close>
  "matchRelative s =
     (case matchBase s of
        None \<Rightarrow> None
      | Some (base, r0) \<Rightarrow>
          (case dropWhile isSpace r0 of
             [] \<Rightarrow> None
           | sign # r1 \<Rightarrow>
               if sign \<noteq> CHR ''+'' \<and> sign \<noteq> CHR ''-'' then None
               else (let r2 = dropWhile isSpace r1; amount = takeWhile isDigit r2
                     in case dropWhile isDigit r2 of
                          [u] \<Rightarrow>
                            if amount \<noteq> [] \<and> lowerChar u \<in> set ''dwmy''
                            then Some (base, sign, amount, u) else None
                        | _ \<Rightarrow> None)))"

definition baseDay :: "civil \<Rightarrow> dateBase \<Rightarrow> int" where
  "baseDay today base =
     (case base of
        Today \<Rightarrow> daysFromCivil today
      | Tomorrow \<Rightarrow> daysFromCivil today + 1
      | Yesterday \<Rightarrow> daysFromCivil today - 1)"

definition parseQueryDate :: "civil \<Rightarrow> string \<Rightarrow> string" where
  "parseQueryDate today dateStr =
     (case matchRelative dateStr of
        Some (base, sign, amount, unit) \<Rightarrow>
          (let b = baseDay today base;
               offset = int (digitsValue 0 amount) * (if sign = CHR ''-'' then - 1 else 1);
               u = lowerChar unit
           in formatDate
                (if u = CHR ''d'' then b + offset
                 else if u = CHR ''w'' then b + offset * 7
                 else (case civilFromDays b of (y, m, d) \<Rightarrow>
                         if u = CHR ''m'' then makeDay y (m - 1 + offset) d
                         else makeDay (y + offset) (m - 1) d)))
      | None \<Rightarrow>
          if toLowerCase dateStr = ''today'' then formatDate (baseDay today Today)
          else if toLowerCase dateStr = ''tomorrow'' then formatDate (baseDay today Tomorrow)
          else if toLowerCase dateStr = ''yesterday'' then formatDate (baseDay today Yesterday)
          else dateStr)"

section \<open>Compilation to the native query (QueryEngine.ts)\<close>

datatype jsError = TypeError | SyntaxError | ApiError string | TimeoutError

definition aliases :: "(string \<times> string) list" where
  "aliases =
     [(''due'', ''due_date''), (''scheduled'', ''scheduled_date''), (''start'', ''start_date''),
      (''done'', ''done_date''), (''cancelled'', ''cancelled_date''), (''tag'', ''tags''),
      (''depends'', ''depends_on'')]"

text \<open>
  \<open>aliases[field.toLowerCase()] || field\<close>.  The table is a plain object, so the keys
  \<open>constructor\<close> and \<open>__proto__\<close> find an inherited member that is not a string:
  that result is \<open>None\<close>.
\<close>

definition normalizeFieldName :: "string \<Rightarrow> string option" where
  "normalizeFieldName f =
     (case map_of aliases (toLowerCase f) of
        Some canonical \<Rightarrow> Some canonical
      | None \<Rightarrow>
          if toLowerCase f = ''constructor'' \<or> toLowerCase f = ''__proto__'' then None
          else Some f)"

definition escapeSQL :: "string \<Rightarrow> string" where
  "escapeSQL v =
     replaceChar CHR ''_'' [CHR 0x5C, CHR ''_'']
       (replaceChar CHR ''%'' [CHR 0x5C, CHR ''%'']
          (replaceChar sq [sq, sq]
             (replaceChar CHR 0x5C [CHR 0x5C, CHR 0x5C] v)))"

definition like :: "string \<Rightarrow> string" where
  "like pat = ''(ial LIKE '' @ [sq] @ pat @ [sq] @ '')''"

definition notLike :: "string \<Rightarrow> string" where
  "notLike pat = ''(ial NOT LIKE '' @ [sq] @ pat @ [sq] @ '')''"

definition quoted :: "string \<Rightarrow> string" where
  "quoted v = [dq] @ v @ [dq]"

definition firstValue :: "qvalue \<Rightarrow> string option" where
  \<comment> \<open>\<open>Array.isArray(v) ? v[0] : v\<close>; \<open>None\<close> is the \<open>undefined\<close> of an empty array\<close>
  "firstValue v = (case v of Scalar s \<Rightarrow> Some s | Multi [] \<Rightarrow> None | Multi (x # _) \<Rightarrow> Some x)"

definition buildStatusFilter :: "FilterCondition \<Rightarrow> jsError + string" where
  "buildStatusFilter f =
     (case firstValue (fvalue f) of
        None \<Rightarrow> Inl TypeError
      | Some statusValue \<Rightarrow>
          (let statusUpper = toUpperCase statusValue
           in Inr (case operator f of
                     EQUALS \<Rightarrow> like (''%custom-task-status='' @ quoted statusUpper @ ''%'')
                   | NOT_EQUALS \<Rightarrow> notLike (''%custom-task-status='' @ quoted statusUpper @ ''%'')
                   | _ \<Rightarrow> like ''%custom-task-status%'')))"

definition buildTagsFilter :: "FilterCondition \<Rightarrow> jsError + string" where
  "buildTagsFilter f =
     (case firstValue (fvalue f) of
        None \<Rightarrow> Inl TypeError
      | Some tagValue \<Rightarrow>
          (let cleanTag = (if startsWith tagValue ''#'' then drop 1 tagValue else tagValue);
               pat = ''%custom-task-tags='' @ [dq] @ ''%'' @ escapeSQL cleanTag @ ''%'' @ [dq] @ ''%''
           in Inr (case operator f of
                     CONTAINS \<Rightarrow> like pat
                   | IN_OP \<Rightarrow> like pat
                   | NOT_CONTAINS \<Rightarrow> notLike pat
                   | NOT_IN \<Rightarrow> notLike pat
                   | _ \<Rightarrow> like ''%custom-task-tags%'')))"

definition buildDateFilter :: "civil \<Rightarrow> string \<Rightarrow> FilterCondition \<Rightarrow> jsError + string" where
  "buildDateFilter today attrName f =
     (case firstValue (fvalue f) of
        None \<Rightarrow> Inl TypeError
      | Some dateValue \<Rightarrow>
          (let parsedDate = parseQueryDate today dateValue
           in Inr (case operator f of
                     EQUALS \<Rightarrow> like (''%'' @ attrName @ ''='' @ quoted parsedDate @ ''%'')
                   | NOT_EQUALS \<Rightarrow> notLike (''%'' @ attrName @ ''='' @ quoted parsedDate @ ''%'')
                   | LESS_THAN \<Rightarrow> like (''%'' @ attrName @ ''%'')
                   | LESS_THAN_OR_EQUAL \<Rightarrow> like (''%'' @ attrName @ ''%'')
                   | GREATER_THAN \<Rightarrow> like (''%'' @ attrName @ ''%'')
                   | GREATER_THAN_OR_EQUAL \<Rightarrow> like (''%'' @ attrName @ ''%'')
                   | _ \<Rightarrow> like (''%'' @ attrName @ ''%''))))"

definition attrPattern :: "string \<Rightarrow> string option \<Rightarrow> bool \<Rightarrow> jsError + string" where
  \<comment> \<open>the pattern of a standard attribute filter, exact or substring; its value must be
      a string\<close>
  "attrPattern attrName v sub =
     (case v of
        None \<Rightarrow> Inl TypeError
      | Some x \<Rightarrow>
          Inr (''%'' @ attrName @ ''='' @ [dq] @ (if sub then ''%'' else [])
               @ escapeSQL x @ (if sub then ''%'' else []) @ [dq] @ ''%''))"

definition buildFilterClause :: "civil \<Rightarrow> FilterCondition \<Rightarrow> jsError + string" where
  "buildFilterClause today f =
     (case normalizeFieldName (field f) of
        None \<Rightarrow> Inl TypeError
      | Some fld \<Rightarrow>
          (let attrName = ''custom-task-'' @ replaceChar CHR ''_'' ''-'' fld
           in if fld = ''status'' then buildStatusFilter f
              else if fld = ''tags'' then buildTagsFilter f
              else if endsWith fld ''_date'' then buildDateFilter today attrName f
              else (let v = firstValue (fvalue f)
                    in case operator f of
                         EQUALS \<Rightarrow> map_sum id like (attrPattern attrName v False)
                       | NOT_EQUALS \<Rightarrow> map_sum id notLike (attrPattern attrName v False)
                       | CONTAINS \<Rightarrow> map_sum id like (attrPattern attrName v True)
                       | NOT_CONTAINS \<Rightarrow> map_sum id notLike (attrPattern attrName v True)
                       | _ \<Rightarrow> Inr (like (''%'' @ attrName @ ''%'')))))"

definition logicOperator :: "nat \<Rightarrow> FilterCondition \<Rightarrow> string list" where
  "logicOperator i f =
     (if i = 0 \<and> logic f = None then [''AND'']
      else if logic f = Some AND_LOGIC then [''AND'']
      else if logic f = Some OR_LOGIC then [''OR'']
      else if logic f = Some NOT_LOGIC then [''AND NOT'']
      else if 0 < i then [''AND'']
      else [])"

fun whereLoop :: "civil \<Rightarrow> nat \<Rightarrow> FilterCondition list \<Rightarrow> jsError + string list" where
  "whereLoop today i [] = Inr []"
| "whereLoop today i (f # fs) =
     (case buildFilterClause today f of
        Inl e \<Rightarrow> Inl e
      | Inr clause \<Rightarrow>
          (case whereLoop today (Suc i) fs of
             Inl e \<Rightarrow> Inl e
           | Inr rest \<Rightarrow> Inr (logicOperator i f @ [clause] @ rest)))"

definition buildWhereClauses :: "civil \<Rightarrow> FilterCondition list \<Rightarrow> jsError + string list" where
  "buildWhereClauses today fs =
     map_sum id (\<lambda>rest. like ''%custom-task-id%'' # rest) (whereLoop today 0 fs)"

definition buildSortClause :: "SortCondition \<Rightarrow> string" where
  "buildSortClause srt =
     (let dir = (if direction srt = DESC then ''DESC'' else ''ASC'')
      in if normalizeFieldName (sort_field srt) = Some ''description'' then ''content '' @ dir
         else ''created '' @ dir)"

fun join :: "string \<Rightarrow> string list \<Rightarrow> string" where
  "join sep [] = []"
| "join sep [x] = x"
| "join sep (x # y # ys) = x @ sep @ join sep (y # ys)"

definition compileToSQL :: "civil \<Rightarrow> ParsedQuery \<Rightarrow> jsError + string" where
  "compileToSQL today query =
     (case buildWhereClauses today (filters query) of
        Inl e \<Rightarrow> Inl e
      | Inr whereClauses \<Rightarrow>
          Inr (join '' ''
                 ([''SELECT * FROM blocks'']
                  @ (if whereClauses \<noteq> [] then [''WHERE '' @ join '' '' whereClauses] else [])
                  @ (if sorts query \<noteq> []
                     then [''ORDER BY '' @ join '', '' (map buildSortClause (sorts query))] else [])
                  @ (case limit query of
                       None \<Rightarrow> []
                     | Some n \<Rightarrow> if n \<noteq> 0 then [''LIMIT '' @ showInt n] else []))))"

section \<open>Task records (TaskData.ts)\<close>

record TaskData =
  task_id :: string
  status :: string
  status_symbol :: string
  due_date :: "string option"
  scheduled_date :: "string option"
  start_date :: "string option"
  done_date :: "string option"
  cancelled_date :: "string option"
  priority :: "int option"
  recurrence_rule :: "string option"
  base_on_completion :: bool
  next_due :: "string option"
  last_completed :: "string option"
  tags :: "string list"
  description :: string
  depends_on :: "string list"
  id_for_deps :: "string option"
  source_block_id :: string
  created_at :: string
  updated_at :: string

type_synonym attrs = "string \<rightharpoonup> string"

definition truthy :: "string option \<Rightarrow> bool" where
  "truthy v = (case v of None \<Rightarrow> False | Some x \<Rightarrow> x \<noteq> [])"

definition orElse :: "string option \<Rightarrow> string \<Rightarrow> string" where
  \<comment> \<open>\<open>v || d\<close> on an optional string\<close>
  "orElse v d = (case v of None \<Rightarrow> d | Some x \<Rightarrow> if x = [] then d else x)"

definition parseList :: "(string \<Rightarrow> jsError + string list) \<Rightarrow> string option \<Rightarrow> jsError + string list" where
  \<comment> \<open>\<open>a ? JSON.parse(a) : []\<close>\<close>
  "parseList jsonParse a = (if truthy a then jsonParse (orElse a []) else Inr [])"

text \<open>
  \<open>jsonParse\<close> is the host's \<open>JSON.parse\<close> on the two list attributes (\<open>Inl\<close> when it
  throws) and \<open>isoNow\<close> the clock's \<open>new Date().toISOString()\<close>.  The result is
  \<open>Inr None\<close> for the \<open>null\<close> of a block without the minimum fields.
\<close>

definition blockAttributesToTaskData ::
  "(string \<Rightarrow> jsError + string list) \<Rightarrow> string \<Rightarrow> string \<Rightarrow> attrs \<Rightarrow> jsError + TaskData option" where
  "blockAttributesToTaskData jsonParse isoNow blockId a =
     (if \<not> truthy (a ''custom-task-id'') \<or> \<not> truthy (a ''custom-task-description'')
      then Inr None
      else (case parseList jsonParse (a ''custom-task-tags'') of
              Inl e \<Rightarrow> Inl e
            | Inr tgs \<Rightarrow>
                (case parseList jsonParse (a ''custom-task-depends-on'') of
                   Inl e \<Rightarrow> Inl e
                 | Inr deps \<Rightarrow>
                     Inr (Some
                       \<lparr>task_id = orElse (a ''custom-task-id'') [],
                        status = orElse (a ''custom-task-status'') ''TODO'',
                        status_symbol = orElse (a ''custom-task-symbol'') ''[ ]'',
                        due_date = a ''custom-task-due'',
                        scheduled_date = a ''custom-task-scheduled'',
                        start_date = a ''custom-task-start'',
                        done_date = a ''custom-task-done'',
                        cancelled_date = a ''custom-task-cancelled'',
                        priority = parseInt (orElse (a ''custom-task-priority'') ''6''),
                        recurrence_rule = a ''custom-task-recurrence'',
                        base_on_completion = (a ''custom-task-base-on-completion'' = Some ''true''),
                        next_due = a ''custom-task-next-due'',
                        last_completed = a ''custom-task-last-completed'',
                        tags = tgs,
                        description = orElse (a ''custom-task-description'') [],
                        depends_on = deps,
                        id_for_deps = a ''custom-task-id-for-deps'',
                        source_block_id = blockId,
                        created_at = orElse (a ''custom-task-created-at'') isoNow,
                        updated_at = orElse (a ''custom-task-updated-at'') isoNow\<rparr>))))"

section \<open>The record source and the engine (SiYuanAPI.ts, QueryEngine.ts)\<close>

text \<open>
  The record source is outside the program: \<open>querySQL\<close> answers a native query with
  rows, \<open>getBlockAttrs\<close> answers a block id with its attributes, and either may fail.
  Every request the engine sends is appended to \<open>requests\<close>, which is how a test
  double counts fetches.
\<close>

datatype row = Row (row_id: string)

record host =
  querySQL :: "string \<Rightarrow> jsError + row list"
  getBlockAttrs :: "string \<Rightarrow> jsError + attrs"
  jsonParse :: "string \<Rightarrow> jsError + string list"

text \<open>What one call of \<open>executeQuery\<close> reads off the clock.\<close>

record clock =
  timeAtCheck :: int
  timeAtStore :: int
  today :: civil
  isoNow :: string

datatype request = QuerySQL string | GetBlockAttrs string

record CacheEntry =
  result :: "TaskData list"
  timestamp :: int

record engine =
  queryCache :: "string \<rightharpoonup> CacheEntry"
  cacheTimeout :: int
  requests :: "request list"

definition hydrate :: "host \<Rightarrow> clock \<Rightarrow> row \<Rightarrow> TaskData option" where
  \<comment> \<open>one iteration of \<open>resultsToTasks\<close>: a failure of the request or of the conversion
      is caught and the row is skipped\<close>
  "hydrate h c r =
     (case getBlockAttrs h (row_id r) of
        Inl e \<Rightarrow> None
      | Inr a \<Rightarrow>
          (case blockAttributesToTaskData (jsonParse h) (isoNow c) (row_id r) a of
             Inl e \<Rightarrow> None
           | Inr t \<Rightarrow> t))"

fun resultsToTasks :: "host \<Rightarrow> clock \<Rightarrow> row list \<Rightarrow> TaskData list" where
  "resultsToTasks h c [] = []"
| "resultsToTasks h c (r # rs) =
     (case hydrate h c r of
        None \<Rightarrow> resultsToTasks h c rs
      | Some t \<Rightarrow> t # resultsToTasks h c rs)"

definition cacheHit :: "engine \<Rightarrow> int \<Rightarrow> string \<Rightarrow> CacheEntry option" where
  \<comment> \<open>\<open>cached && Date.now() - cached.timestamp < this.cacheTimeout\<close>\<close>
  "cacheHit e now queryString =
     (case queryCache e queryString of
        None \<Rightarrow> None
      | Some cached \<Rightarrow> if now - timestamp cached < cacheTimeout e then Some cached else None)"

definition executeQuery ::
  "host \<Rightarrow> clock \<Rightarrow> engine \<Rightarrow> string \<Rightarrow> bool \<Rightarrow> (jsError + TaskData list) \<times> engine" where
  "executeQuery h c e queryString useCache =
     (case (if useCache then cacheHit e (timeAtCheck c) queryString else None) of
        Some cached \<Rightarrow> (Inr (result cached), e)
      | None \<Rightarrow>
          (case compileToSQL (today c) (parse queryString) of
             Inl err \<Rightarrow> (Inl err, e)
           | Inr sql \<Rightarrow>
               (case querySQL h sql of
                  Inl err \<Rightarrow> (Inl err, e\<lparr>requests := requests e @ [QuerySQL sql]\<rparr>)
                | Inr rows \<Rightarrow>
                    (let tasks = resultsToTasks h c rows
                     in (Inr tasks,
                         e\<lparr>queryCache :=
                              (queryCache e)(queryString \<mapsto>
                                 \<lparr>result = tasks, timestamp = timeAtStore c\<rparr>),
                           requests :=
                              requests e @ QuerySQL sql # map (\<lambda>r. GetBlockAttrs (row_id r)) rows\<rparr>)))))"

definition clearCache :: "engine \<Rightarrow> engine" where
  "clearCache e = e\<lparr>queryCache := Map.empty\<rparr>"

definition setCacheTimeout :: "int \<Rightarrow> engine \<Rightarrow> engine" where
  "setCacheTimeout timeout e = e\<lparr>cacheTimeout := timeout\<rparr>"

definition newEngine :: engine where
  "newEngine = \<lparr>queryCache = Map.empty, cacheTimeout = 60000, requests = []\<rparr>"

section \<open>The optimizer (QueryOptimizer.ts)\<close>

record QueryOptimizationSettings =
  maxExecutionTime :: int
  maxResults :: int
  enableCache :: bool
  cacheTimeoutSetting :: int

definition DEFAULT_OPTIMIZATION_SETTINGS :: QueryOptimizationSettings where
  "DEFAULT_OPTIMIZATION_SETTINGS =
     \<lparr>maxExecutionTime = 5000, maxResults = 1000, enableCache = True,
      cacheTimeoutSetting = 60000\<rparr>"

definition noLimit :: "int option \<Rightarrow> bool" where
  \<comment> \<open>\<open>!query.limit\<close>: absent or zero\<close>
  "noLimit l = (l = None \<or> l = Some 0)"

definition optimize :: "QueryOptimizationSettings \<Rightarrow> ParsedQuery \<Rightarrow> ParsedQuery" where
  "optimize settings query =
     (if noLimit (limit query) \<or> (case limit query of None \<Rightarrow> False | Some l \<Rightarrow> maxResults settings < l)
      then query\<lparr>limit := Some (maxResults settings)\<rparr>
      else query)"

record ValidationResult =
  valid :: bool
  error :: "string option"

definition tooManyValues :: "FilterCondition \<Rightarrow> bool" where
  \<comment> \<open>\<open>Array.isArray(filter.value) && filter.value.length > 100\<close>\<close>
  "tooManyValues f = (case fvalue f of Scalar x \<Rightarrow> False | Multi vs \<Rightarrow> 100 < length vs)"

definition validateQuery :: "ParsedQuery \<Rightarrow> ValidationResult" where
  "validateQuery query =
     (if filters query = [] \<and> noLimit (limit query)
      then \<lparr>valid = False,
            error = Some ''Query without filters must have a limit to prevent performance issues''\<rparr>
      else if list_ex tooManyValues (filters query)
      then \<lparr>valid = False,
            error = Some ''Filter with more than 100 values may cause performance issues''\<rparr>
      else \<lparr>valid = True, error = None\<rparr>)"

text \<open>
  \<open>executeWithTimeout\<close> races the started call against a timer.  The call has been
  started either way, so its effects stand; \<open>timerFirst\<close> says which of the two settles
  first.
\<close>

definition executeWithTimeout :: "bool \<Rightarrow> (jsError + 'a) \<times> engine \<Rightarrow> (jsError + 'a) \<times> engine" where
  "executeWithTimeout timerFirst outcome =
     (if timerFirst then (Inl TimeoutError, snd outcome) else outcome)"

section \<open>Global filters and the plugin's query handler\<close>

record GlobalFilterSettings =
  excludedNotebooks :: "string list"
  excludedPaths :: "string list"
  excludedTags :: "string list"
  includedTags :: "string list"
  defaultConditions :: string

definition isLineTerminator :: "char \<Rightarrow> bool" where
  "isLineTerminator c = (c = CHR 0x0A \<or> c = CHR 0x0D)"

text \<open>
  \<open>matchesTag\<close> turns the pattern into an anchored, case-insensitive regular expression
  in which \<open>*\<close> is \<open>.*\<close>, \<open>?\<close> is \<open>.\<close> and every other character stands for itself.
\<close>

fun globMatch :: "string \<Rightarrow> string \<Rightarrow> bool" where
  "globMatch [] s = (s = [])"
| "globMatch (p # ps) [] = (p = CHR ''*'' \<and> globMatch ps [])"
| "globMatch (p # ps) (c # cs) =
     (if p = CHR ''*'' then globMatch ps (c # cs) \<or> (\<not> isLineTerminator c \<and> globMatch (p # ps) cs)
      else if p = CHR ''?'' then \<not> isLineTerminator c \<and> globMatch ps cs
      else lowerChar p = lowerChar c \<and> globMatch ps cs)"

definition stripHash :: "string \<Rightarrow> string" where
  \<comment> \<open>\<open>replace(/^#/, '')\<close>\<close>
  "stripHash s = (if startsWith s ''#'' then drop 1 s else s)"

definition matchesTag :: "string \<Rightarrow> string \<Rightarrow> bool" where
  "matchesTag tag pattern = globMatch (stripHash pattern) (stripHash tag)"

definition passesFilters :: "GlobalFilterSettings \<Rightarrow> TaskData \<Rightarrow> bool" where
  "passesFilters settings task =
     (if excludedTags settings \<noteq> []
         \<and> list_ex (\<lambda>tag. list_ex (\<lambda>excluded. matchesTag tag excluded) (excludedTags settings))
              (tags task)
      then False
      else if includedTags settings \<noteq> []
         \<and> \<not> list_ex (\<lambda>tag. list_ex (\<lambda>included. matchesTag tag included) (includedTags settings))
                (tags task)
      then False
      else True)"

definition filterTasks :: "GlobalFilterSettings \<Rightarrow> TaskData list \<Rightarrow> TaskData list" where
  "filterTasks settings tasks = filter (passesFilters settings) tasks"

definition appendToQuery :: "GlobalFilterSettings \<Rightarrow> string \<Rightarrow> string" where
  "appendToQuery settings queryString =
     (let conds = trim (defaultConditions settings)
      in if conds = [] then queryString
         else if includesStr (toLowerCase queryString) ''where''
         then queryString @ [CHR 0x0A] @ ''and '' @ conds
         else queryString @ [CHR 0x0A] @ ''where '' @ conds)"

definition handleQueryExecute ::
  "GlobalFilterSettings \<Rightarrow> bool \<Rightarrow> host \<Rightarrow> clock \<Rightarrow> engine \<Rightarrow> string
     \<Rightarrow> (jsError + TaskData list) \<times> engine" where
  "handleQueryExecute settings timerFirst h c e query =
     (case executeWithTimeout timerFirst (executeQuery h c e (appendToQuery settings query) True) of
        (Inl err, e') \<Rightarrow> (Inl err, e')
      | (Inr tasks, e') \<Rightarrow> (Inr (filterTasks settings tasks), e'))"

section \<open>What the specification says, for comparison\<close>

text \<open>
  The effective limit in the specification's words: the smaller of the limit and the
  configured maximum when a positive limit is present, and the configured maximum
  otherwise.
\<close>

definition specEffectiveLimit :: "int \<Rightarrow> int option \<Rightarrow> int" where
  "specEffectiveLimit maxR l =
     (case l of None \<Rightarrow> maxR | Some n \<Rightarrow> if 0 < n then min n maxR else maxR)"

text \<open>
  Rejection in the specification's words: no filter and no explicit limit, or a filter
  whose value is a list of more than 100 elements.
\<close>

definition specRejects :: "ParsedQuery \<Rightarrow> bool" where
  "specRejects q =
     ((filters q = [] \<and> limit q = None)
      \<or> list_ex (\<lambda>f. case fvalue f of Scalar x \<Rightarrow> False | Multi vs \<Rightarrow> 100 < length vs) (filters q))"

text \<open>
  A date comparison in the specification's words: the record has the date, and the date
  stands in the relation to the comparison value.  Dates are \<open>YYYY-MM-DD\<close> strings,
  whose dictionary order is the order of the calendar.
\<close>

definition specDateHolds :: "QueryOperator \<Rightarrow> string option \<Rightarrow> string \<Rightarrow> bool" where
  "specDateHolds opr d v =
     (case d of
        None \<Rightarrow> False
      | Some x \<Rightarrow>
          (case opr of
             LESS_THAN \<Rightarrow> x < v
           | LESS_THAN_OR_EQUAL \<Rightarrow> x \<le> v
           | GREATER_THAN \<Rightarrow> v < x
           | GREATER_THAN_OR_EQUAL \<Rightarrow> v \<le> x
           | _ \<Rightarrow> True))"

definition specDueRefined :: "QueryOperator \<Rightarrow> string \<Rightarrow> jsError + TaskData list \<Rightarrow> bool" where
  \<comment> \<open>every returned record satisfies the comparison on its due date\<close>
  "specDueRefined opr v r =
     (case r of Inl e \<Rightarrow> True | Inr ts \<Rightarrow> list_all (\<lambda>t. specDateHolds opr (due_date t) v) ts)"

definition specSortedByDueAsc :: "jsError + TaskData list \<Rightarrow> bool" where
  \<comment> \<open>the returned records are in ascending order of due date, a missing date first\<close>
  "specSortedByDueAsc r =
     (case r of Inl e \<Rightarrow> True | Inr ts \<Rightarrow> sorted (map (\<lambda>t. orElse (due_date t) []) ts))"

section \<open>A record source for tests\<close>

text \<open>
  A test double of the record source with three task blocks, created in the order
  \<open>b1\<close>, \<open>b2\<close>, \<open>b3\<close>.  Its narrowing over-approximates: it answers every native
  query with all its task blocks, in creation order.
\<close>

definition taskAttrs :: "string \<Rightarrow> string \<Rightarrow> string \<Rightarrow> attrs" where
  "taskAttrs tid st due =
     [''custom-task-id'' \<mapsto> tid, ''custom-task-status'' \<mapsto> st, ''custom-task-due'' \<mapsto> due,
      ''custom-task-description'' \<mapsto> ''task '' @ tid]"

definition tripleAttrs :: "string \<Rightarrow> jsError + attrs" where
  "tripleAttrs blockId =
     (if blockId = ''b1'' then Inr (taskAttrs ''t1'' ''TODO'' ''2026-01-26'')
      else if blockId = ''b2'' then Inr (taskAttrs ''t2'' ''DONE'' ''2026-01-20'')
      else if blockId = ''b3'' then Inr (taskAttrs ''t3'' ''TODO'' ''2026-02-10'')
      else Inl (ApiError ''Failed to get block attributes''))"

definition tripleHost :: host where
  "tripleHost =
     \<lparr>querySQL = (\<lambda>sql. Inr [Row ''b1'', Row ''b2'', Row ''b3'']),
      getBlockAttrs = tripleAttrs,
      jsonParse = (\<lambda>s. if s = ''[]'' then Inr [] else Inl SyntaxError)\<rparr>"

definition downHost :: host where
  \<comment> \<open>a record source that is down: every request fails\<close>
  "downHost =
     \<lparr>querySQL = (\<lambda>sql. Inl (ApiError ''Failed to execute SQL query'')),
      getBlockAttrs = (\<lambda>blockId. Inl (ApiError ''Failed to get block attributes'')),
      jsonParse = (\<lambda>s. Inl SyntaxError)\<rparr>"

definition warmEngine :: engine where
  \<comment> \<open>an engine whose cache already holds two entries\<close>
  "warmEngine =
     newEngine\<lparr>queryCache :=
       [''tasks'' \<mapsto> \<lparr>result = [], timestamp = 0\<rparr>,
        ''limit 5'' \<mapsto> \<lparr>result = [], timestamp = 5\<rparr>]\<rparr>"

definition clockAt :: "int \<Rightarrow> clock" where
  \<comment> \<open>a clock read on 2026-01-25, at millisecond \<open>t\<close>\<close>
  "clockAt t =
     \<lparr>timeAtCheck = t, timeAtStore = t, today = (2026, 1, 25),
      isoNow = ''2026-01-25T00:00:00.000Z''\<rparr>"

definition nl :: string where
  "nl = [CHR 0x0A]"

definition endToEndQuery :: string where
  "endToEndQuery =
     ''tasks'' @ nl @ ''where status != done'' @ nl @ ''  and due <= today + 7d'' @ nl
     @ ''sort by due asc'' @ nl @ ''limit 50''"

definition defaultGlobalFilter :: GlobalFilterSettings where
  "defaultGlobalFilter =
     \<lparr>excludedNotebooks = [], excludedPaths = [], excludedTags = [], includedTags = [],
      defaultConditions = []\<rparr>"

definition fetchCount :: "request list \<Rightarrow> nat" where
  \<comment> \<open>the number of narrowing queries among the requests\<close>
  "fetchCount rs = length (filter (\<lambda>r. case r of QuerySQL s \<Rightarrow> True | GetBlockAttrs b \<Rightarrow> False) rs)"

section \<open>The optimizer: clamping and validation\<close>

text \<open>
  C5, as stated, fails: the line \<open>limit -5\<close> parses to the limit \<open>-5\<close>, which is neither
  absent, nor zero, nor above the maximum, so \<open>optimize\<close> leaves it: the result is not
  the configured maximum and not positive.
\<close>

theorem optimize_negative_limit_counterexample:
  "limit (optimize DEFAULT_OPTIMIZATION_SETTINGS (parse ''limit -5'')) = Some (- 5)
   \<and> limit (optimize DEFAULT_OPTIMIZATION_SETTINGS (parse ''limit -5''))
       \<noteq> Some (specEffectiveLimit (maxResults DEFAULT_OPTIMIZATION_SETTINGS)
                 (limit (parse ''limit -5'')))"
  by code_simp

text \<open>
  C5, amended: for a query whose limit is absent or not negative, and a positive
  configured maximum, \<open>optimize\<close> sets the limit to the smaller of the limit and the
  maximum when the limit is positive and to the maximum when it is absent or zero; the
  limit it leaves is a positive integer not above the maximum; a positive limit within
  the maximum leaves the whole query untouched; a positive limit is never raised; and
  filters and sorts are kept.
\<close>

theorem optimize_limit_nonnegative:
  assumes "0 < maxResults s"
    and "case limit q of None \<Rightarrow> True | Some l \<Rightarrow> 0 \<le> l"
  shows "limit (optimize s q) = Some (specEffectiveLimit (maxResults s) (limit q))
    \<and> (\<exists>l'. limit (optimize s q) = Some l' \<and> 0 < l' \<and> l' \<le> maxResults s)
    \<and> (\<forall>l. limit q = Some l \<and> 0 < l \<and> l \<le> maxResults s \<longrightarrow> optimize s q = q)
    \<and> (\<forall>l. limit q = Some l \<and> 0 < l \<longrightarrow> (\<exists>l'. limit (optimize s q) = Some l' \<and> l' \<le> l))
    \<and> filters (optimize s q) = filters q \<and> sorts (optimize s q) = sorts q"
proof (cases "limit q")
  case None
  then show ?thesis
    using assms by (simp add: optimize_def noLimit_def specEffectiveLimit_def)
next
  case (Some l)
  then have "0 \<le> l" using assms(2) by simp
  then show ?thesis
    using Some assms(1) by (auto simp: optimize_def noLimit_def specEffectiveLimit_def)
qed

theorem optimize_limit_nonnegative_witness:
  "0 < maxResults DEFAULT_OPTIMIZATION_SETTINGS
   \<and> limit (optimize DEFAULT_OPTIMIZATION_SETTINGS \<lparr>filters = [], sorts = [], limit = Some 5000\<rparr>)
       = Some 1000
   \<and> optimize DEFAULT_OPTIMIZATION_SETTINGS \<lparr>filters = [], sorts = [], limit = Some 50\<rparr>
       = \<lparr>filters = [], sorts = [], limit = Some 50\<rparr>"
  using optimize_limit_nonnegative
          [of DEFAULT_OPTIMIZATION_SETTINGS "\<lparr>filters = [], sorts = [], limit = Some 5000\<rparr>"]
        optimize_limit_nonnegative
          [of DEFAULT_OPTIMIZATION_SETTINGS "\<lparr>filters = [], sorts = [], limit = Some 50\<rparr>"]
  by (simp add: DEFAULT_OPTIMIZATION_SETTINGS_def specEffectiveLimit_def)

text \<open>
  C6, as stated, fails: the line \<open>limit 0\<close> gives a query with an explicit limit and no
  list value, which the claim accepts, and \<open>validateQuery\<close> rejects it, because the test
  \<open>!query.limit\<close> holds of zero as well as of an absent limit.
\<close>

theorem validateQuery_limit_zero_counterexample:
  "limit (parse ''limit 0'') = Some 0
   \<and> \<not> specRejects (parse ''limit 0'')
   \<and> \<not> valid (validateQuery (parse ''limit 0''))"
  by code_simp

text \<open>
  C6, amended: \<open>validateQuery\<close> rejects exactly when the query has no filter and its limit
  is absent or zero, or some filter has a list value of more than 100 elements; it gives
  a reason string exactly when it rejects; it returns a verdict only, and no query.
\<close>

theorem validateQuery_rejects_iff:
  "(\<not> valid (validateQuery q))
     = ((filters q = [] \<and> (limit q = None \<or> limit q = Some 0))
        \<or> (\<exists>f \<in> set (filters q). \<exists>vs. fvalue f = Multi vs \<and> 100 < length vs))
   \<and> (valid (validateQuery q) \<longleftrightarrow> error (validateQuery q) = None)"
proof -
  have one: "tooManyValues f = (\<exists>vs. fvalue f = Multi vs \<and> 100 < length vs)" for f
    by (cases "fvalue f") (simp_all add: tooManyValues_def)
  have "list_ex tooManyValues (filters q)
          = (\<exists>f \<in> set (filters q). \<exists>vs. fvalue f = Multi vs \<and> 100 < length vs)"
    by (simp add: list_ex_iff one)
  then show ?thesis
    by (simp add: validateQuery_def noLimit_def)
qed

theorem validateQuery_rejects_iff_witness:
  "\<not> valid (validateQuery \<lparr>filters = [], sorts = [], limit = None\<rparr>)
   \<and> valid (validateQuery \<lparr>filters = [], sorts = [], limit = Some 50\<rparr>)
   \<and> valid (validateQuery
        \<lparr>filters = [\<lparr>field = ''tag'', operator = IN_OP, fvalue = Multi [''a'', ''b''], logic = None\<rparr>],
         sorts = [], limit = None\<rparr>)"
  using validateQuery_rejects_iff [of "\<lparr>filters = [], sorts = [], limit = None\<rparr>"]
        validateQuery_rejects_iff [of "\<lparr>filters = [], sorts = [], limit = Some 50\<rparr>"]
        validateQuery_rejects_iff
          [of "\<lparr>filters = [\<lparr>field = ''tag'', operator = IN_OP, fvalue = Multi [''a'', ''b''], logic = None\<rparr>],
               sorts = [], limit = None\<rparr>"]
  by simp

section \<open>The parser on the specification's examples\<close>

text \<open>
  C3: the clause \<open>tag not includes work\<close>.  \<open>parseFilter\<close> tries the operators in
  declaration order, where \<open>includes\<close> stands before \<open>not includes\<close>, and the pattern
  of \<open>includes\<close> is case sensitive: the clause is split at \<open>includes\<close> and comes out as
  a CONTAINS filter on the field \<open>tag not\<close>.  The pattern of \<open>not includes\<close> ignores
  case, so it is reached by the clause in capitals, which no earlier pattern matches.
\<close>

theorem parseFilter_not_includes_is_contains:
  "parseFilter ''tag not includes work''
     = Some \<lparr>field = ''tag not'', operator = CONTAINS, fvalue = Scalar ''work'', logic = None\<rparr>
   \<and> parseFilter ''tag NOT INCLUDES work''
     = Some \<lparr>field = ''tag'', operator = NOT_CONTAINS, fvalue = Scalar ''work'', logic = None\<rparr>"
  by code_simp

lemma where_line_adds_at_most_one_filter:
  assumes "startsWith (toLowerCase line) ''where ''"
  shows "length (filters (fst (parseLine (query, currentLogic) line))) \<le> Suc (length (filters query))"
proof -
  have "toLowerCase line \<noteq> ''tasks''"
    using assms by (auto simp: startsWith_def)
  then show ?thesis
    using assms by (simp add: parseLine_def split: option.splits)
qed

text \<open>
  C7: a single line \<open>where A and B or C\<close>.  The line begins with \<open>where\<close>, so its whole
  remainder goes to \<open>parseFilter\<close> as one clause and the branches that split a line at
  inline connectives are never reached: with three equality clauses no operator splits
  the remainder in two and the line yields no filter; with a last clause on \<open>includes\<close>
  it yields one filter, whose field holds the first two clauses.
\<close>

theorem parse_where_and_or_single_line:
  "filters (parse ''where a = 1 and b = 2 or c = 3'') = []
   \<and> filters (parse ''where a = 1 and b = 2 or tag includes x'')
       = [\<lparr>field = ''a = 1 and b = 2 or tag'', operator = CONTAINS,
           fvalue = Scalar ''x'', logic = None\<rparr>]"
  by code_simp

section \<open>The engine: what reaches the record source and what comes back\<close>

lemma cacheHit_newEngine: "cacheHit newEngine now q = None"
  by (simp add: cacheHit_def newEngine_def)

lemma executeQuery_miss:
  assumes "(if u then cacheHit e (timeAtCheck c) q else None) = None"
    and "compileToSQL (today c) (parse q) = Inr sql"
    and "querySQL h sql = Inr rows"
  shows "executeQuery h c e q u
           = (Inr (resultsToTasks h c rows),
              e\<lparr>queryCache :=
                   (queryCache e)(q \<mapsto> \<lparr>result = resultsToTasks h c rows, timestamp = timeAtStore c\<rparr>),
                requests := requests e @ QuerySQL sql # map (\<lambda>r. GetBlockAttrs (row_id r)) rows\<rparr>)"
  using assms by (simp add: executeQuery_def Let_def)

lemma executeQuery_miss_result:
  assumes "(if u then cacheHit e (timeAtCheck c) q else None) = None"
    and "compileToSQL (today c) (parse q) = Inr sql"
  shows "fst (executeQuery h c e q u) = map_sum id (resultsToTasks h c) (querySQL h sql)"
  using assms by (cases "querySQL h sql") (simp_all add: executeQuery_def Let_def)

lemma resultsToTasks_set:
  "set (resultsToTasks h c rows) = {t. \<exists>r \<in> set rows. hydrate h c r = Some t}"
  by (induction rows) (auto split: option.splits)

lemma hydrate_block_id:
  assumes "hydrate h c r = Some t"
  shows "source_block_id t = row_id r"
  using assms
  by (auto simp: hydrate_def blockAttributesToTaskData_def split: sum.splits if_splits)

lemma resultsToTasks_subseq:
  "subseq (map source_block_id (resultsToTasks h c rows)) (map row_id rows)"
proof (induction rows)
  case Nil
  show ?case by simp
next
  case (Cons r rows)
  show ?case
  proof (cases "hydrate h c r")
    case None
    with Cons show ?thesis by (auto intro: list_emb_Cons)
  next
    case (Some t)
    with Cons hydrate_block_id [OF Some] show ?thesis by simp
  qed
qed

lemma executeQuery_miss_requests:
  assumes "(if u then cacheHit e (timeAtCheck c) q else None) = None"
    and "compileToSQL (today c) (parse q) = Inr sql"
  shows "\<exists>rest. requests (snd (executeQuery h c e q u)) = requests e @ QuerySQL sql # rest"
  using assms by (cases "querySQL h sql") (simp_all add: executeQuery_def Let_def)

lemma compile_tasks: "compileToSQL td (parse ''tasks'') = Inr (''SELECT * FROM blocks WHERE '' @ like ''%custom-task-id%'')"
  by code_simp

lemma fetchCount_hydration: "fetchCount (map (\<lambda>r. GetBlockAttrs (row_id r)) rows) = 0"
  by (induction rows) (simp_all add: fetchCount_def)

lemma fetchCount_miss:
  "fetchCount (rs @ QuerySQL sql # map (\<lambda>r. GetBlockAttrs (row_id r)) rows) = fetchCount rs + 1"
  using fetchCount_hydration [of rows] by (simp add: fetchCount_def)

lemma compile_shape:
  assumes "compileToSQL td query = Inr sql"
  shows "\<exists>wc. buildWhereClauses td (filters query) = Inr wc
           \<and> sql = ''SELECT * FROM blocks WHERE '' @ join '' '' wc
                   @ (if sorts query \<noteq> []
                      then '' ORDER BY '' @ join '', '' (map buildSortClause (sorts query)) else [])
                   @ (case limit query of
                        None \<Rightarrow> []
                      | Some n \<Rightarrow> if n \<noteq> 0 then '' LIMIT '' @ showInt n else [])"
proof (cases "whereLoop td 0 (filters query)")
  case (Inl err)
  with assms show ?thesis
    by (simp add: compileToSQL_def buildWhereClauses_def)
next
  case (Inr rest)
  then have wc: "buildWhereClauses td (filters query) = Inr (like ''%custom-task-id%'' # rest)"
    by (simp add: buildWhereClauses_def)
  with assms show ?thesis
    by (cases "limit query") (auto simp: compileToSQL_def)
qed

lemma tripleHost_rows: "querySQL tripleHost sql = Inr [Row ''b1'', Row ''b2'', Row ''b3'']"
  by (simp add: tripleHost_def)

lemma tripleHost_task_ids:
  "map task_id (resultsToTasks tripleHost (clockAt t) [Row ''b1'', Row ''b2'', Row ''b3''])
     = [''t1'', ''t2'', ''t3'']"
  by code_simp

lemma tripleHost_due_dates:
  "map due_date (resultsToTasks tripleHost (clockAt t) [Row ''b1'', Row ''b2'', Row ''b3''])
     = [Some ''2026-01-26'', Some ''2026-01-20'', Some ''2026-02-10'']"
  by code_simp

subsection \<open>The end-to-end example\<close>

lemma parse_endToEnd:
  "parse endToEndQuery
     = \<lparr>filters = [\<lparr>field = ''status !'', operator = EQUALS, fvalue = Scalar ''done'', logic = None\<rparr>],
        sorts = [\<lparr>sort_field = ''due'', direction = ASC\<rparr>], limit = Some 50\<rparr>"
  by code_simp

lemma parse_endToEnd_without_date:
  "parse (''tasks'' @ nl @ ''where status != done'' @ nl @ ''sort by due asc'' @ nl @ ''limit 50'')
     = \<lparr>filters = [\<lparr>field = ''status !'', operator = EQUALS, fvalue = Scalar ''done'', logic = None\<rparr>],
        sorts = [\<lparr>sort_field = ''due'', direction = ASC\<rparr>], limit = Some 50\<rparr>"
  by code_simp

lemma compile_endToEnd:
  "compileToSQL td (parse endToEndQuery)
     = Inr (''SELECT * FROM blocks WHERE '' @ like ''%custom-task-id%'' @ '' AND ''
            @ like (''%custom-task-status !='' @ quoted ''done'' @ ''%'')
            @ '' ORDER BY created ASC LIMIT 50'')"
  unfolding parse_endToEnd by code_simp

text \<open>
  C2: the end-to-end query on 2026-01-25.  The line \<open>and due <= today + 7d\<close> matches no
  branch of the parser and is dropped: the query parses like the one without it.  The
  clause \<open>status != done\<close> is split at \<open>=\<close>, the first operator tried, into the field
  \<open>status !\<close> and the value \<open>done\<close>.  The native query therefore tests neither the due
  date nor the absence of the status; the engine returns the hydration of whatever the
  record source answers to it, and on the over-approximating test source all three
  records come back.  The date expression itself, had it been compiled, resolves to
  2026-02-01.
\<close>

theorem end_to_end_query_trace:
  "parse endToEndQuery
     = \<lparr>filters = [\<lparr>field = ''status !'', operator = EQUALS, fvalue = Scalar ''done'', logic = None\<rparr>],
        sorts = [\<lparr>sort_field = ''due'', direction = ASC\<rparr>], limit = Some 50\<rparr>
   \<and> parse endToEndQuery
       = parse (''tasks'' @ nl @ ''where status != done'' @ nl @ ''sort by due asc'' @ nl @ ''limit 50'')
   \<and> fst (executeQuery h (clockAt t) newEngine endToEndQuery True)
       = map_sum id (resultsToTasks h (clockAt t))
           (querySQL h
              (''SELECT * FROM blocks WHERE '' @ like ''%custom-task-id%'' @ '' AND ''
               @ like (''%custom-task-status !='' @ quoted ''done'' @ ''%'')
               @ '' ORDER BY created ASC LIMIT 50''))
   \<and> map_sum id (map task_id) (fst (executeQuery tripleHost (clockAt 0) newEngine endToEndQuery True))
       = Inr [''t1'', ''t2'', ''t3'']
   \<and> parseQueryDate (2026, 1, 25) ''today + 7d'' = ''2026-02-01''"
proof -
  have date: "parseQueryDate (2026, 1, 25) ''today + 7d'' = ''2026-02-01''"
    by code_simp
  have miss: "(if True then cacheHit newEngine (timeAtCheck (clockAt t')) endToEndQuery else None) = None"
    for t'
    by (simp add: cacheHit_newEngine)
  have p2: "parse endToEndQuery
       = parse (''tasks'' @ nl @ ''where status != done'' @ nl @ ''sort by due asc'' @ nl @ ''limit 50'')"
    by (simp only: parse_endToEnd parse_endToEnd_without_date)
  note p3 = executeQuery_miss_result [OF miss compile_endToEnd, of h t]
  have p4: "map_sum id (map task_id) (fst (executeQuery tripleHost (clockAt 0) newEngine endToEndQuery True))
       = Inr [''t1'', ''t2'', ''t3'']"
    by (simp add: executeQuery_miss_result [OF miss compile_endToEnd] tripleHost_rows
          tripleHost_task_ids del: resultsToTasks.simps)
  from parse_endToEnd p2 p3 p4 date show ?thesis by blast
qed

subsection \<open>Validation is not on the execution path\<close>

text \<open>
  C4: the query \<open>tasks\<close> has no filter and no limit, and \<open>validateQuery\<close> rejects it.
  \<open>handleQueryExecute\<close> and \<open>executeQuery\<close> never call \<open>validateQuery\<close>: with the
  default global filter and an empty cache, whatever the record source and whoever wins
  the race with the timer, the native query of the invalid query is sent to the record
  source.
\<close>

theorem invalid_query_reaches_record_source:
  "\<not> valid (validateQuery (parse ''tasks''))
   \<and> QuerySQL (''SELECT * FROM blocks WHERE '' @ like ''%custom-task-id%'')
       \<in> set (requests (snd (handleQueryExecute defaultGlobalFilter timerFirst h c newEngine ''tasks'')))"
proof -
  have v: "\<not> valid (validateQuery (parse ''tasks''))"
    by code_simp
  have a: "appendToQuery defaultGlobalFilter ''tasks'' = ''tasks''"
    by code_simp
  have miss: "(if True then cacheHit newEngine (timeAtCheck c) ''tasks'' else None) = None"
    by (simp add: cacheHit_newEngine)
  obtain rest where r: "requests (snd (executeQuery h c newEngine ''tasks'' True))
      = requests newEngine @ QuerySQL (''SELECT * FROM blocks WHERE '' @ like ''%custom-task-id%'') # rest"
    using executeQuery_miss_requests [OF miss compile_tasks, of h] by blast
  have "snd (handleQueryExecute defaultGlobalFilter timerFirst h c newEngine ''tasks'')
          = snd (executeQuery h c newEngine ''tasks'' True)"
    by (cases "executeQuery h c newEngine ''tasks'' True"; cases "fst (executeQuery h c newEngine ''tasks'' True)")
       (auto simp: handleQueryExecute_def executeWithTimeout_def a)
  with r v show ?thesis by simp
qed

subsection \<open>Date filters with an ordering operator\<close>

lemma parse_dueQuery:
  "parse ''where due < 2026-01-22''
     = \<lparr>filters = [\<lparr>field = ''due'', operator = LESS_THAN, fvalue = Scalar ''2026-01-22'', logic = None\<rparr>],
        sorts = [], limit = None\<rparr>"
  by code_simp

lemma compile_dueQuery:
  "compileToSQL td (parse ''where due < 2026-01-22'')
     = Inr (''SELECT * FROM blocks WHERE '' @ like ''%custom-task-id%'' @ '' AND ''
            @ like ''%custom-task-due-date%'')"
  unfolding parse_dueQuery by code_simp

lemma date_field_not_special:
  assumes "endsWith fld ''_date''"
  shows "fld \<noteq> ''status'' \<and> fld \<noteq> ''tags''"
proof -
  have "\<not> endsWith ''status'' ''_date''" and "\<not> endsWith ''tags'' ''_date''"
    by (simp_all add: endsWith_def)
  with assms show ?thesis by auto
qed

text \<open>
  C1, as stated, fails: the query \<open>where due < 2026-01-22\<close> holds a filter on the date
  field \<open>due_date\<close> with the operator \<open><\<close>; on the test source, whose narrowing
  over-approximates, the engine returns the records due 2026-01-26 and 2026-02-10 too.
  No refine pass runs between hydration and the return.
\<close>

theorem date_ordering_counterexample:
  "map (\<lambda>f. (normalizeFieldName (field f), operator f, fvalue f)) (filters (parse ''where due < 2026-01-22''))
     = [(Some ''due_date'', LESS_THAN, Scalar ''2026-01-22'')]
   \<and> \<not> specDueRefined LESS_THAN ''2026-01-22''
         (fst (executeQuery tripleHost (clockAt 0) newEngine ''where due < 2026-01-22'' True))"
  by code_simp

text \<open>
  C1, amended: a filter on a date field (a field whose canonical name ends in
  \<open>_date\<close>) with an ordering operator compiles to the test that the attribute
  \<open>custom-task-<field>\<close> occurs, whatever the operator and the comparison value; and on
  a cache miss \<open>executeQuery\<close> returns, unrefined, exactly the candidates of the record
  source that hydrate to a task.
\<close>

theorem ordering_date_filter_not_refined:
  assumes "f \<in> set (filters (parse q))"
    and fld: "normalizeFieldName (field f) = Some fld"
    and dt: "endsWith fld ''_date''"
    and opr: "operator f \<in> {LESS_THAN, LESS_THAN_OR_EQUAL, GREATER_THAN, GREATER_THAN_OR_EQUAL}"
    and val: "firstValue (fvalue f) = Some v"
    and miss: "(if u then cacheHit e (timeAtCheck c) q else None) = None"
    and sql: "compileToSQL (today c) (parse q) = Inr sql"
    and rows: "querySQL h sql = Inr rows"
  shows "buildFilterClause (today c) f
           = Inr (like (''%custom-task-'' @ replaceChar CHR ''_'' ''-'' fld @ ''%''))
     \<and> fst (executeQuery h c e q u) = Inr (resultsToTasks h c rows)
     \<and> set (resultsToTasks h c rows) = {t. \<exists>r \<in> set rows. hydrate h c r = Some t}"
proof -
  from date_field_not_special [OF dt] have ns: "fld \<noteq> ''status''" "fld \<noteq> ''tags''"
    by simp_all
  have "buildDateFilter (today c) (''custom-task-'' @ replaceChar CHR ''_'' ''-'' fld) f
          = Inr (like (''%'' @ (''custom-task-'' @ replaceChar CHR ''_'' ''-'' fld) @ ''%''))"
    using opr val by (auto simp: buildDateFilter_def)
  then have a: "buildFilterClause (today c) f
           = Inr (like (''%custom-task-'' @ replaceChar CHR ''_'' ''-'' fld @ ''%''))"
    using fld dt ns by (simp add: buildFilterClause_def)
  have b: "fst (executeQuery h c e q u) = Inr (resultsToTasks h c rows)"
    using executeQuery_miss_result [OF miss sql, of h] rows by simp
  from a b resultsToTasks_set show ?thesis by blast
qed

theorem ordering_date_filter_not_refined_witness:
  "buildFilterClause (2026, 1, 25)
       \<lparr>field = ''due'', operator = LESS_THAN, fvalue = Scalar ''2026-01-22'', logic = None\<rparr>
     = Inr (like ''%custom-task-due-date%'')
   \<and> map_sum id (map due_date)
        (fst (executeQuery tripleHost (clockAt 0) newEngine ''where due < 2026-01-22'' True))
       = Inr [Some ''2026-01-26'', Some ''2026-01-20'', Some ''2026-02-10'']"
proof -
  let ?f = "\<lparr>field = ''due'', operator = LESS_THAN, fvalue = Scalar ''2026-01-22'', logic = None\<rparr>"
  let ?q = "''where due < 2026-01-22''"
  let ?sql = "''SELECT * FROM blocks WHERE '' @ like ''%custom-task-id%'' @ '' AND ''
            @ like ''%custom-task-due-date%''"
  have h1: "?f \<in> set (filters (parse ?q))"
    by (simp add: parse_dueQuery)
  have h2: "normalizeFieldName (field ?f) = Some ''due_date''"
    by code_simp
  have h3: "endsWith ''due_date'' ''_date''"
    by (simp add: endsWith_def)
  have h4: "operator ?f \<in> {LESS_THAN, LESS_THAN_OR_EQUAL, GREATER_THAN, GREATER_THAN_OR_EQUAL}"
    by simp
  have h5: "firstValue (fvalue ?f) = Some ''2026-01-22''"
    by (simp add: firstValue_def)
  have h6: "(if True then cacheHit newEngine (timeAtCheck (clockAt 0)) ?q else None) = None"
    by (simp add: cacheHit_newEngine)
  have h7: "compileToSQL (today (clockAt 0)) (parse ?q) = Inr ?sql"
    by (rule compile_dueQuery)
  have h8: "querySQL tripleHost ?sql = Inr [Row ''b1'', Row ''b2'', Row ''b3'']"
    by (simp add: tripleHost_def)
  have td: "today (clockAt 0) = (2026, 1, 25)"
    by (simp add: clockAt_def)
  have r: "replaceChar CHR ''_'' ''-'' ''due_date'' = ''due-date''"
    by code_simp
  from ordering_date_filter_not_refined [OF h1 h2 h3 h4 h5 h6 h7 h8]
  show ?thesis
    by (simp add: td r tripleHost_due_dates del: resultsToTasks.simps)
qed

subsection \<open>Sorting\<close>

lemma parse_sortQuery:
  "parse ''sort by due asc'' = \<lparr>filters = [], sorts = [\<lparr>sort_field = ''due'', direction = ASC\<rparr>], limit = None\<rparr>"
  by code_simp

lemma compile_sortQuery:
  "compileToSQL td (parse ''sort by due asc'')
     = Inr (''SELECT * FROM blocks WHERE '' @ like ''%custom-task-id%'' @ '' ORDER BY created ASC'')"
  unfolding parse_sortQuery by code_simp

text \<open>
  C8, as stated, fails: for \<open>sort by due asc\<close> the native query orders by the column
  \<open>created\<close>, the engine keeps the order of the rows it is given, and the test source's
  rows in creation order are due 2026-01-26, 2026-01-20, 2026-02-10: not ascending.
\<close>

theorem sort_by_due_counterexample:
  "map (\<lambda>s. (sort_field s, direction s)) (sorts (parse ''sort by due asc'')) = [(''due'', ASC)]
   \<and> \<not> specSortedByDueAsc
         (fst (executeQuery tripleHost (clockAt 0) newEngine ''sort by due asc'' True))"
  by code_simp

text \<open>
  C8, amended: for a query with sort conditions, the native query carries one ORDER BY
  term per sort condition, in the requested order and direction, on the column
  \<open>content\<close> when the alias-normalized field is \<open>description\<close> and on the column
  \<open>created\<close> otherwise; the engine does not sort: on a cache miss it returns the
  hydrated records in the order in which the record source delivered their rows.
\<close>

theorem sort_is_left_to_the_record_source:
  assumes srt: "sorts (parse q) \<noteq> []"
    and miss: "(if u then cacheHit e (timeAtCheck c) q else None) = None"
    and sql: "compileToSQL (today c) (parse q) = Inr sql"
    and rows: "querySQL h sql = Inr rows"
  shows "(\<exists>pre post. sql = pre @ '' ORDER BY '' @ join '', '' (map buildSortClause (sorts (parse q))) @ post)
     \<and> (\<forall>s \<in> set (sorts (parse q)).
           buildSortClause s
             = (if normalizeFieldName (sort_field s) = Some ''description'' then ''content '' else ''created '')
               @ (if direction s = DESC then ''DESC'' else ''ASC''))
     \<and> fst (executeQuery h c e q u) = Inr (resultsToTasks h c rows)
     \<and> subseq (map source_block_id (resultsToTasks h c rows)) (map row_id rows)"
proof -
  from compile_shape [OF sql] srt obtain wc where
    shape: "sql = (''SELECT * FROM blocks WHERE '' @ join '' '' wc)
                  @ '' ORDER BY '' @ join '', '' (map buildSortClause (sorts (parse q)))
                  @ (case limit (parse q) of
                       None \<Rightarrow> []
                     | Some n \<Rightarrow> if n \<noteq> 0 then '' LIMIT '' @ showInt n else [])"
    by auto
  have a: "\<exists>pre post. sql = pre @ '' ORDER BY '' @ join '', '' (map buildSortClause (sorts (parse q))) @ post"
    by (rule exI [of _ "''SELECT * FROM blocks WHERE '' @ join '' '' wc"], rule exI, rule shape)
  have b: "\<forall>s \<in> set (sorts (parse q)).
           buildSortClause s
             = (if normalizeFieldName (sort_field s) = Some ''description'' then ''content '' else ''created '')
               @ (if direction s = DESC then ''DESC'' else ''ASC'')"
    by (simp add: buildSortClause_def)
  have d: "fst (executeQuery h c e q u) = Inr (resultsToTasks h c rows)"
    using executeQuery_miss_result [OF miss sql, of h] rows by simp
  from a b d resultsToTasks_subseq show ?thesis by blast
qed

theorem sort_is_left_to_the_record_source_witness:
  "sorts (parse ''sort by due asc'') \<noteq> []
   \<and> buildSortClause \<lparr>sort_field = ''due'', direction = ASC\<rparr> = ''created ASC''
   \<and> map_sum id (map due_date)
        (fst (executeQuery tripleHost (clockAt 0) newEngine ''sort by due asc'' True))
       = Inr [Some ''2026-01-26'', Some ''2026-01-20'', Some ''2026-02-10'']"
proof -
  let ?q = "''sort by due asc''"
  let ?sql = "''SELECT * FROM blocks WHERE '' @ like ''%custom-task-id%'' @ '' ORDER BY created ASC''"
  have h1: "sorts (parse ?q) \<noteq> []"
    by (simp add: parse_sortQuery)
  have h2: "(if True then cacheHit newEngine (timeAtCheck (clockAt 0)) ?q else None) = None"
    by (simp add: cacheHit_newEngine)
  have h3: "compileToSQL (today (clockAt 0)) (parse ?q) = Inr ?sql"
    by (rule compile_sortQuery)
  have h4: "querySQL tripleHost ?sql = Inr [Row ''b1'', Row ''b2'', Row ''b3'']"
    by (simp add: tripleHost_def)
  have n: "normalizeFieldName ''due'' = Some ''due_date''"
    by code_simp
  from sort_is_left_to_the_record_source [OF h1 h2 h3 h4] h1
  show ?thesis
    by (simp add: parse_sortQuery n tripleHost_due_dates del: resultsToTasks.simps)
qed

subsection \<open>The cache\<close>

text \<open>
  C9: a call of \<open>executeQuery\<close> that misses the cache and succeeds, followed by a call
  with the same query string, the cache allowed, whose clock reads less than the cache
  timeout after the entry was written.  The second call returns the result of the first
  and leaves the engine as it was, so it sends no request, whatever the record source
  would answer; over the two calls exactly one narrowing query is sent.
\<close>

theorem cached_second_call:
  assumes miss: "(if u then cacheHit e (timeAtCheck c1) q else None) = None"
    and first: "executeQuery h1 c1 e q u = (Inr r1, e1)"
    and fresh: "timeAtCheck c2 - timeAtStore c1 < cacheTimeout e"
  shows "executeQuery h2 c2 e1 q True = (Inr r1, e1)
     \<and> fetchCount (requests e1) = fetchCount (requests e) + 1"
proof -
  obtain sql where sql: "compileToSQL (today c1) (parse q) = Inr sql"
    using miss first by (cases "compileToSQL (today c1) (parse q)") (auto simp: executeQuery_def)
  obtain rows where rows: "querySQL h1 sql = Inr rows"
    using miss first sql by (cases "querySQL h1 sql") (auto simp: executeQuery_def)
  from executeQuery_miss [OF miss sql rows] first
  have r1: "r1 = resultsToTasks h1 c1 rows"
    and e1: "e1 = e\<lparr>queryCache :=
                   (queryCache e)(q \<mapsto> \<lparr>result = resultsToTasks h1 c1 rows, timestamp = timeAtStore c1\<rparr>),
                requests := requests e @ QuerySQL sql # map (\<lambda>r. GetBlockAttrs (row_id r)) rows\<rparr>"
    by simp_all
  have hit: "cacheHit e1 (timeAtCheck c2) q = Some \<lparr>result = r1, timestamp = timeAtStore c1\<rparr>"
    using fresh by (simp add: cacheHit_def e1 r1)
  have second: "executeQuery h2 c2 e1 q True = (Inr r1, e1)"
    by (simp add: executeQuery_def hit)
  have "fetchCount (requests e1) = fetchCount (requests e) + 1"
    by (simp add: e1 fetchCount_miss)
  with second show ?thesis by simp
qed

theorem cached_second_call_witness:
  "executeQuery downHost (clockAt 59999)
       (snd (executeQuery tripleHost (clockAt 0) newEngine ''tasks'' True)) ''tasks'' True
     = executeQuery tripleHost (clockAt 0) newEngine ''tasks'' True
   \<and> fetchCount (requests (snd (executeQuery tripleHost (clockAt 0) newEngine ''tasks'' True))) = 1
   \<and> map_sum id (map task_id) (fst (executeQuery tripleHost (clockAt 0) newEngine ''tasks'' True))
       = Inr [''t1'', ''t2'', ''t3'']"
proof -
  let ?sql = "''SELECT * FROM blocks WHERE '' @ like ''%custom-task-id%''"
  have miss: "(if True then cacheHit newEngine (timeAtCheck (clockAt 0)) ''tasks'' else None) = None"
    by (simp add: cacheHit_newEngine)
  have rows: "querySQL tripleHost ?sql = Inr [Row ''b1'', Row ''b2'', Row ''b3'']"
    by (simp add: tripleHost_def)
  obtain r1 e1 where first: "executeQuery tripleHost (clockAt 0) newEngine ''tasks'' True = (Inr r1, e1)"
    and r1: "r1 = resultsToTasks tripleHost (clockAt 0) [Row ''b1'', Row ''b2'', Row ''b3'']"
    using executeQuery_miss [OF miss compile_tasks rows] by blast
  have fresh: "timeAtCheck (clockAt 59999) - timeAtStore (clockAt 0) < cacheTimeout newEngine"
    by (simp add: clockAt_def newEngine_def)
  have ids: "map task_id r1 = [''t1'', ''t2'', ''t3'']"
    unfolding r1 by code_simp
  have none: "fetchCount (requests newEngine) = 0"
    by (simp add: newEngine_def fetchCount_def)
  from cached_second_call [OF miss first fresh, of downHost]
  show ?thesis
    by (simp add: first ids none)
qed

text \<open>
  C10: a call of \<open>executeQuery\<close> with \<open>useCache = false\<close> that succeeds.  The result
  comes from the record source, not from the cache; the cache afterwards is the cache
  before with the entry of the query string set to the fresh result and the time of the
  write, so every other key keeps its entry; the cache timeout is unchanged.
\<close>

theorem uncached_call_overwrites_entry:
  assumes "executeQuery h c e q False = (Inr tasks, e')"
  shows "queryCache e' = (queryCache e)(q \<mapsto> \<lparr>result = tasks, timestamp = timeAtStore c\<rparr>)
     \<and> (\<forall>k. k \<noteq> q \<longrightarrow> queryCache e' k = queryCache e k)
     \<and> cacheTimeout e' = cacheTimeout e
     \<and> (\<exists>sql rows. compileToSQL (today c) (parse q) = Inr sql \<and> querySQL h sql = Inr rows
           \<and> tasks = resultsToTasks h c rows
           \<and> requests e' = requests e @ QuerySQL sql # map (\<lambda>r. GetBlockAttrs (row_id r)) rows)"
proof -
  have miss: "(if False then cacheHit e (timeAtCheck c) q else None) = None"
    by simp
  obtain sql where sql: "compileToSQL (today c) (parse q) = Inr sql"
    using assms by (cases "compileToSQL (today c) (parse q)") (auto simp: executeQuery_def)
  obtain rows where rows: "querySQL h sql = Inr rows"
    using assms sql by (cases "querySQL h sql") (auto simp: executeQuery_def)
  from executeQuery_miss [OF miss sql rows] assms
  have t: "tasks = resultsToTasks h c rows"
    and e': "e' = e\<lparr>queryCache :=
                   (queryCache e)(q \<mapsto> \<lparr>result = resultsToTasks h c rows, timestamp = timeAtStore c\<rparr>),
                requests := requests e @ QuerySQL sql # map (\<lambda>r. GetBlockAttrs (row_id r)) rows\<rparr>"
    by simp_all
  from sql rows show ?thesis
    by (auto simp: t e')
qed

theorem uncached_call_overwrites_entry_witness:
  "cacheHit warmEngine 10 ''tasks'' = Some \<lparr>result = [], timestamp = 0\<rparr>
   \<and> map_option timestamp
        (queryCache (snd (executeQuery tripleHost (clockAt 10) warmEngine ''tasks'' False)) ''tasks'')
       = Some 10
   \<and> map_option (map task_id \<circ> result)
        (queryCache (snd (executeQuery tripleHost (clockAt 10) warmEngine ''tasks'' False)) ''tasks'')
       = Some [''t1'', ''t2'', ''t3'']
   \<and> queryCache (snd (executeQuery tripleHost (clockAt 10) warmEngine ''tasks'' False)) ''limit 5''
       = Some \<lparr>result = [], timestamp = 5\<rparr>"
proof -
  let ?sql = "''SELECT * FROM blocks WHERE '' @ like ''%custom-task-id%''"
  have miss: "(if False then cacheHit warmEngine (timeAtCheck (clockAt 10)) ''tasks'' else None) = None"
    by simp
  have rows: "querySQL tripleHost ?sql = Inr [Row ''b1'', Row ''b2'', Row ''b3'']"
    by (simp add: tripleHost_def)
  obtain tasks e' where call: "executeQuery tripleHost (clockAt 10) warmEngine ''tasks'' False = (Inr tasks, e')"
    and tasks: "tasks = resultsToTasks tripleHost (clockAt 10) [Row ''b1'', Row ''b2'', Row ''b3'']"
    using executeQuery_miss [OF miss compile_tasks rows] by blast
  have ids: "map task_id tasks = [''t1'', ''t2'', ''t3'']"
    unfolding tasks by code_simp
  have warm: "cacheHit warmEngine 10 ''tasks'' = Some \<lparr>result = [], timestamp = 0\<rparr>"
    by (simp add: cacheHit_def warmEngine_def newEngine_def)
  have other: "queryCache warmEngine ''limit 5'' = Some \<lparr>result = [], timestamp = 5\<rparr>"
    by (simp add: warmEngine_def)
  have t: "timeAtStore (clockAt 10) = 10"
    by (simp add: clockAt_def)
  from uncached_call_overwrites_entry [OF call]
  have "queryCache e' = (queryCache warmEngine)(''tasks'' \<mapsto> \<lparr>result = tasks, timestamp = 10\<rparr>)"
    by (simp add: t)
  then show ?thesis
    by (simp add: call warm other ids)
qed

end
